theory Spec2Isabelle
  imports Complex_Main "HOL-Library.Char_ord" "HOL-Library.List_Lexorder"
begin

section \<open>The detection engine of flight\_anom\_gr.py\<close>

text \<open>
  A shallow embedding of the detection engine in \<^verbatim>\<open>src/flight_anom_gr.py\<close>.
  Inside the classifiers Python floats are idealised as exact reals. Where a claim turns
  on what doubles do, that is modelled apart: the raw values of the normalizer carry
  the infinities and NaN, the great-circle distance of the pattern detectors may raise,
  and the sum \<open>h + 180\<close> of the lawnmower detector is rounded to a double.
  Python's unbounded integers are \<^typ>\<open>int\<close>; strings are byte strings; an
  \<^verbatim>\<open>Optional[T]\<close> field is a \<^typ>\<open>'a option\<close>; every exception the source can
  raise on the modelled paths is a value of \<open>py_error\<close>.
\<close>

subsection \<open>Data model\<close>

datatype py_error = TypeError | ValueError | OverflowError | AttributeError | IndexError

text \<open>Sequencing of steps that may raise: the first exception ends the evaluation.\<close>

definition and_then :: "'e + 'a \<Rightarrow> ('a \<Rightarrow> 'e + 'b) \<Rightarrow> 'e + 'b" where
  "and_then r f = (case r of Inl e \<Rightarrow> Inl e | Inr x \<Rightarrow> f x)"

text \<open>
  A float as the JSON decoder can deliver it: a finite value, an infinity (the literals
  \<^verbatim>\<open>Infinity\<close> and \<^verbatim>\<open>-Infinity\<close>, and numbers too large for a double such as
  \<^verbatim>\<open>1e999\<close>; the flag marks the negative one), or NaN.
\<close>

datatype pyfloat = FFin real | FInf bool | FNaN

text \<open>A loosely typed value as the JSON decoder delivers it.\<close>

datatype pyval =
    PNone
  | PBool bool
  | PInt int
  | PFloat pyfloat
  | PStr string
  | PList "pyval list"
  | PDict "(string \<times> pyval) list"

text \<open>The dataclass \<^verbatim>\<open>Aircraft\<close> (lines 68-82).\<close>

record Aircraft =
  hex :: string
  flight :: string
  lat :: "real option"
  lon :: "real option"
  alt_baro :: "int option"
  gs :: "real option"
  ts :: "real option"
  reg :: "string option"
  squawk :: "string option"
  ground :: "bool option"
  model_desc :: "pyval option"
  model_t :: "pyval option"
  is_mil :: bool

subsection \<open>Cooldown ledger\<close>

text \<open>
  The debounce idiom that \<^verbatim>\<open>main\<close> inlines for every event class (lines 643-644
  with 676, 718-720 with 762, 781-782 with 815, 824-826 with 860):
  \<^verbatim>\<open>if now_ts - last.get(key, 0) >= cooldown: ...; last[key] = now_ts\<close>.
  The result is the alert decision and the ledger after the step.
\<close>

text \<open>\<^verbatim>\<open>last.get(key, 0)\<close>: a key never alerted reads as time 0.\<close>

definition last_get :: "('k \<rightharpoonup> real) \<Rightarrow> 'k \<Rightarrow> real" where
  "last_get M k = (case M k of None \<Rightarrow> 0 | Some u \<Rightarrow> u)"

definition check_and_mark ::
  "('k \<rightharpoonup> real) \<Rightarrow> 'k \<Rightarrow> real \<Rightarrow> int \<Rightarrow> bool \<times> ('k \<rightharpoonup> real)" where
  "check_and_mark last_alert key now_ts cooldown =
     (if now_ts - last_get last_alert key \<ge> of_int cooldown
      then (True, last_alert(key \<mapsto> now_ts))
      else (False, last_alert))"

subsection \<open>Track history\<close>

text \<open>
  \<^verbatim>\<open>deque(maxlen=n).append(x)\<close>: the element goes to the right end and, when the
  deque then holds more than \<open>n\<close> elements, the leftmost one is removed.
\<close>

definition deque_append :: "nat \<Rightarrow> 'a list \<Rightarrow> 'a \<Rightarrow> 'a list" where
  "deque_append maxlen q x =
     (let q' = q @ [x] in if length q' > maxlen then tl q' else q')"

definition TRACK_MAXLEN :: nat where
  "TRACK_MAXLEN = 120"

text \<open>
  \<^verbatim>\<open>track_history\<close> is a \<^verbatim>\<open>defaultdict(lambda: deque(maxlen=120))\<close> (line 561): a
  key never written reads as the empty deque. One iteration of the loop at lines
  613-616 (the pattern detectors that follow only read the history).
\<close>

type_synonym track_history = "string \<Rightarrow> (real \<times> real) list"

definition track_append :: "track_history \<Rightarrow> Aircraft \<Rightarrow> track_history" where
  "track_append th ac =
     (case lat ac of
        None \<Rightarrow> th
      | Some la \<Rightarrow>
          (case lon ac of
             None \<Rightarrow> th
           | Some lo \<Rightarrow> th(hex ac := deque_append TRACK_MAXLEN (th (hex ac)) (la, lo))))"

definition track_cycle :: "track_history \<Rightarrow> Aircraft list \<Rightarrow> track_history" where
  "track_cycle th aircraft = fold (\<lambda>ac th'. track_append th' ac) aircraft th"

definition track_empty :: track_history where
  "track_empty = (\<lambda>_. [])"

text \<open>
  \<^verbatim>\<open>Aircraft(hex, "", None, None, None, None, None)\<close>: a state with every optional
  field absent, the dataclass defaults for the rest.
\<close>

definition blank_aircraft :: "string \<Rightarrow> Aircraft" where
  "blank_aircraft h =
     \<lparr>hex = h, flight = [], lat = None, lon = None, alt_baro = None, gs = None, ts = None,
      reg = None, squawk = None, ground = None, model_desc = None, model_t = None,
      is_mil = False\<rparr>"

subsection \<open>Angles and great-circle geometry\<close>

text \<open>
  Python's \<^verbatim>\<open>x % m\<close> on floats, for \<open>m \<noteq> 0\<close>: the remainder has the sign of the
  divisor. The source only divides by the positive constants 180 and 360.
\<close>

definition py_fmod :: "real \<Rightarrow> real \<Rightarrow> real" where
  "py_fmod x m = x - m * of_int \<lfloor>x / m\<rfloor>"

definition radians :: "real \<Rightarrow> real" where
  "radians d = d * pi / 180"

definition degrees :: "real \<Rightarrow> real" where
  "degrees r = r * 180 / pi"

text \<open>\<^verbatim>\<open>math.atan2(y, x)\<close>: the angle of the point \<open>(x, y)\<close>, in \<open>(-\<pi>, \<pi>]\<close>.\<close>

definition py_atan2 :: "real \<Rightarrow> real \<Rightarrow> real" where
  "py_atan2 y x =
     (if 0 < x then arctan (y / x)
      else if x < 0 then (if 0 \<le> y then arctan (y / x) + pi else arctan (y / x) - pi)
      else if 0 < y then pi / 2
      else if y < 0 then - (pi / 2)
      else 0)"

text \<open>
  \<^verbatim>\<open>haversine_km\<close> (lines 112-119). In exact arithmetic \<open>a\<close> lies in \<open>[0, 1]\<close>, so
  neither square root leaves the domain of \<^verbatim>\<open>math.sqrt\<close>.
\<close>

definition haversine_km :: "real \<times> real \<Rightarrow> real \<times> real \<Rightarrow> real" where
  "haversine_km p1 p2 =
     (let R = 6371;
          lat1 = radians (fst p1); lon1 = radians (snd p1);
          lat2 = radians (fst p2); lon2 = radians (snd p2);
          dlat = lat2 - lat1;
          dlon = lon2 - lon1;
          a = (sin (dlat / 2))\<^sup>2 + cos lat1 * cos lat2 * (sin (dlon / 2))\<^sup>2
      in R * 2 * py_atan2 (sqrt a) (sqrt (1 - a)))"

text \<open>\<^verbatim>\<open>heading\<close> (lines 121-126).\<close>

definition heading :: "real \<times> real \<Rightarrow> real \<times> real \<Rightarrow> real option" where
  "heading p1 p2 =
     (let dy = fst p2 - fst p1;
          dx = snd p2 - snd p1
      in if dx = 0 \<and> dy = 0 then None
         else Some (py_fmod (degrees (py_atan2 dx dy)) 360))"

text \<open>\<^verbatim>\<open>angle_diff_deg\<close> (lines 128-130).\<close>

definition angle_diff_deg :: "real \<Rightarrow> real \<Rightarrow> real" where
  "angle_diff_deg a b =
     (let d = py_fmod \<bar>a - b\<bar> 360 in if d \<le> 180 then d else 360 - d)"

subsection \<open>Proximity classifier\<close>

text \<open>\<^verbatim>\<open>same_direction\<close> (lines 494-497).\<close>

definition same_direction :: "real option \<Rightarrow> real option \<Rightarrow> real \<Rightarrow> bool" where
  "same_direction h1 h2 tol_deg =
     (case h1 of
        None \<Rightarrow> False
      | Some a \<Rightarrow> (case h2 of None \<Rightarrow> False | Some b \<Rightarrow> angle_diff_deg a b \<le> tol_deg))"

text \<open>\<^verbatim>\<open>approx_following\<close> (lines 499-509).\<close>

definition approx_following ::
  "real \<times> real \<Rightarrow> real option \<Rightarrow> real \<times> real \<Rightarrow> real option \<Rightarrow> real \<Rightarrow> bool" where
  "approx_following p_lead h_lead p_trail h_trail tol_deg =
     (case h_lead of
        None \<Rightarrow> False
      | Some hl \<Rightarrow>
          (case h_trail of
             None \<Rightarrow> False
           | Some ht \<Rightarrow>
               if angle_diff_deg hl ht > tol_deg then False
               else (case heading p_lead p_trail of
                       None \<Rightarrow> False
                     | Some bt \<Rightarrow> angle_diff_deg (py_fmod (hl + 180) 360) bt \<le> tol_deg)))"

text \<open>
  The current heading of an aircraft (lines 679-682, read back with
  \<^verbatim>\<open>cur_head.get(hex)\<close> at lines 688 and 698): the bearing between the last two
  points of its history, absent when the history holds fewer than two points.
\<close>

definition cur_head :: "track_history \<Rightarrow> string \<Rightarrow> real option" where
  "cur_head th h =
     (let q = th h in
      if length q \<ge> 2 then heading (q ! (length q - 2)) (q ! (length q - 1)) else None)"

text \<open>The proximity thresholds of the command line (lines 530-533).\<close>

record prox_args =
  proximity_km :: real
  prox_angle_deg :: real
  prox_alt_diff_ft :: real
  prox_gs_diff_kt :: real

text \<open>The defaults of the proximity thresholds (lines 530-533).\<close>

definition default_prox_args :: prox_args where
  "default_prox_args =
     \<lparr>proximity_km = 3, prox_angle_deg = 20, prox_alt_diff_ft = 500, prox_gs_diff_kt = 40\<rparr>"

text \<open>
  The position test \<^verbatim>\<open>ac.lat and ac.lon\<close> (lines 685 and 692) and the pair
  \<^verbatim>\<open>(ac.lat, ac.lon)\<close> built when it passes (lines 687 and 697): an
  \<^verbatim>\<open>Optional[float]\<close> is false when it is \<^verbatim>\<open>None\<close> and when it is \<^verbatim>\<open>0.0\<close>.
\<close>

definition known_position :: "Aircraft \<Rightarrow> (real \<times> real) option" where
  "known_position ac =
     (case lat ac of
        None \<Rightarrow> None
      | Some la \<Rightarrow>
          (case lon ac of
             None \<Rightarrow> None
           | Some lo \<Rightarrow> if la \<noteq> 0 \<and> lo \<noteq> 0 then Some (la, lo) else None))"

text \<open>The four gates of the pairwise check (lines 699-707).\<close>

definition dist_gate :: "prox_args \<Rightarrow> real \<times> real \<Rightarrow> real \<times> real \<Rightarrow> bool" where
  "dist_gate args p1 p2 = (haversine_km p1 p2 < proximity_km args)"

definition alt_ok :: "prox_args \<Rightarrow> Aircraft \<Rightarrow> Aircraft \<Rightarrow> bool" where
  "alt_ok args ac1 ac2 =
     (case alt_baro ac1 of
        None \<Rightarrow> False
      | Some a1 \<Rightarrow>
          (case alt_baro ac2 of
             None \<Rightarrow> False
           | Some a2 \<Rightarrow> of_int \<bar>a1 - a2\<bar> \<le> prox_alt_diff_ft args))"

definition gs_ok :: "prox_args \<Rightarrow> Aircraft \<Rightarrow> Aircraft \<Rightarrow> bool" where
  "gs_ok args ac1 ac2 =
     (case gs ac1 of
        None \<Rightarrow> False
      | Some g1 \<Rightarrow>
          (case gs ac2 of None \<Rightarrow> False | Some g2 \<Rightarrow> \<bar>g1 - g2\<bar> \<le> prox_gs_diff_kt args))"

definition dir_ok :: "prox_args \<Rightarrow> track_history \<Rightarrow> Aircraft \<Rightarrow> Aircraft \<Rightarrow> bool" where
  "dir_ok args th ac1 ac2 =
     same_direction (cur_head th (hex ac1)) (cur_head th (hex ac2)) (prox_angle_deg args)"

text \<open>The label of a pair that passed the gates (lines 712-715).\<close>

definition prox_label ::
  "prox_args \<Rightarrow> real \<times> real \<Rightarrow> real option \<Rightarrow> real \<times> real \<Rightarrow> real option \<Rightarrow> string" where
  "prox_label args p1 h1 p2 h2 =
     (if approx_following p1 h1 p2 h2 (prox_angle_deg args)
         \<or> approx_following p2 h2 p1 h1 (prox_angle_deg args)
      then ''INSEGUIMENTO'' else ''CLUSTER'')"

text \<open>\<^verbatim>\<open>tuple(sorted([ac1.hex, ac2.hex]) + [label])\<close> (line 717).\<close>

definition prox_key :: "Aircraft \<Rightarrow> Aircraft \<Rightarrow> string \<Rightarrow> string list" where
  "prox_key ac1 ac2 label = sort [hex ac1, hex ac2] @ [label]"

text \<open>
  The body of the double loop at lines 684-717 for one pair \<open>(ac1, ac2)\<close>, up to the
  cooldown check: \<open>None\<close> when one of the \<^verbatim>\<open>continue\<close> statements is reached, otherwise
  the cooldown key, the label and the distance of the finding.
\<close>

definition prox_pair ::
  "prox_args \<Rightarrow> track_history \<Rightarrow> Aircraft \<Rightarrow> Aircraft \<Rightarrow> (string list \<times> string \<times> real) option" where
  "prox_pair args th ac1 ac2 =
     (case known_position ac1 of
        None \<Rightarrow> None
      | Some p1 \<Rightarrow>
          (case known_position ac2 of
             None \<Rightarrow> None
           | Some p2 \<Rightarrow>
               if hex ac1 = hex ac2 then None
               else if \<not> dist_gate args p1 p2 then None
               else if \<not> (alt_ok args ac1 ac2 \<and> gs_ok args ac1 ac2 \<and> dir_ok args th ac1 ac2)
               then None
               else
                 let label = prox_label args p1 (cur_head th (hex ac1)) p2 (cur_head th (hex ac2))
                 in Some (prox_key ac1 ac2 label, label, haversine_km p1 p2)))"

subsection \<open>Strings and formatting\<close>

text \<open>
  Strings hold ASCII text, one character per byte. \<^verbatim>\<open>str.strip()\<close> removes the
  leading and trailing whitespace; the ASCII characters Python counts as whitespace are
  9 to 13 and 28 to 32.
\<close>

definition is_space :: "char \<Rightarrow> bool" where
  "is_space c = (let n = (of_char c :: nat) in (9 \<le> n \<and> n \<le> 13) \<or> (28 \<le> n \<and> n \<le> 32))"

definition py_strip :: "string \<Rightarrow> string" where
  "py_strip s = rev (dropWhile is_space (rev (dropWhile is_space s)))"

text \<open>The decimal digits of a natural number, and \<^verbatim>\<open>str(i)\<close> of an integer.\<close>

fun digits :: "nat \<Rightarrow> string" where
  "digits n =
     (if n < 10 then [char_of (48 + n)]
      else digits (n div 10) @ [char_of (48 + n mod 10)])"

definition str_int :: "int \<Rightarrow> string" where
  "str_int i = (if i < 0 then CHR ''-'' # digits (nat (- i)) else digits (nat i))"

text \<open>
  The format \<^verbatim>\<open>.0f\<close> rounds to the nearest integer, a tie going to the even one,
  and keeps the sign of a negative value that rounds to zero; \<^verbatim>\<open>+.0f\<close> also
  writes the sign of a value that is not negative.
\<close>

definition round_half_even :: "real \<Rightarrow> int" where
  "round_half_even r =
     (let f = \<lfloor>r\<rfloor>; d = r - of_int f
      in if d < 1 / 2 then f else if 1 / 2 < d then f + 1 else if even f then f else f + 1)"

definition fmt_0f :: "real \<Rightarrow> string" where
  "fmt_0f r =
     (if r < 0 then CHR ''-'' # digits (nat (- round_half_even r))
      else digits (nat (round_half_even r)))"

definition fmt_plus_0f :: "real \<Rightarrow> string" where
  "fmt_plus_0f r = (if r < 0 then fmt_0f r else CHR ''+'' # fmt_0f r)"

subsection \<open>Anomaly classifier\<close>

text \<open>The default thresholds (lines 58-63).\<close>

definition DEF_MAX_GS_KT :: real where "DEF_MAX_GS_KT = 650"
definition DEF_MIN_GS_KT :: real where "DEF_MIN_GS_KT = 35"
definition DEF_MIN_ALT_FT :: int where "DEF_MIN_ALT_FT = 500"
definition DEF_MAX_ALT_FT :: int where "DEF_MAX_ALT_FT = 60000"
definition DEF_MAX_VS_FPM :: real where "DEF_MAX_VS_FPM = 8000"
definition DEF_MAX_DGS_KTS :: real where "DEF_MAX_DGS_KTS = 250"

text \<open>The local variable \<^verbatim>\<open>is_ground\<close> of \<^verbatim>\<open>detect_anomalies\<close> (lines 419-425).\<close>

definition is_ground :: "Aircraft \<Rightarrow> bool" where
  "is_ground ac =
     (if ground ac = Some True then True
      else if (case alt_baro ac of
                 None \<Rightarrow> False
               | Some a \<Rightarrow> a \<le> 100 \<and> (case gs ac of None \<Rightarrow> True | Some g \<Rightarrow> g < 60))
      then True
      else if (case alt_baro ac of None \<Rightarrow> False | Some a \<Rightarrow> a \<le> 0) then True
      else False)"

text \<open>
  The findings of \<^verbatim>\<open>detect_anomalies\<close> (lines 427-450), in the order the source
  adds them to the set \<^verbatim>\<open>seen\<close>.
\<close>

definition squawk_finding :: "Aircraft \<Rightarrow> string list" where
  "squawk_finding ac =
     (case squawk ac of
        None \<Rightarrow> []
      | Some s \<Rightarrow>
          if s \<noteq> [] \<and> py_strip s \<in> {''7500'', ''7600'', ''7700''}
          then [''SQUAWK: #'' @ s] else [])"

definition gs_finding :: "Aircraft \<Rightarrow> real \<Rightarrow> real \<Rightarrow> string list" where
  "gs_finding ac min_gs_kt max_gs_kt =
     (case gs ac of
        None \<Rightarrow> []
      | Some g \<Rightarrow>
          if g > max_gs_kt then [''GS alta: '' @ fmt_0f g @ '' kt'']
          else if g < min_gs_kt \<and> \<not> is_ground ac then [''GS bassa: '' @ fmt_0f g @ '' kt'']
          else [])"

definition alt_finding :: "Aircraft \<Rightarrow> int \<Rightarrow> int \<Rightarrow> string list" where
  "alt_finding ac min_alt_ft max_alt_ft =
     (case alt_baro ac of
        None \<Rightarrow> []
      | Some a \<Rightarrow>
          if a > max_alt_ft then [''ALT alta: '' @ str_int a @ '' ft'']
          else if a < min_alt_ft \<and> \<not> is_ground ac \<and> a > 0
          then [''ALT bassa: '' @ str_int a @ '' ft'']
          else [])"

text \<open>The capital delta of the \<^verbatim>\<open>\<Delta>GS\<close> finding is the two bytes CE 94 of its UTF-8 form.\<close>

definition dgs_finding :: "Aircraft \<Rightarrow> Aircraft \<Rightarrow> real \<Rightarrow> string list" where
  "dgs_finding ac prev max_dgs_kts =
     (case gs ac of
        None \<Rightarrow> []
      | Some g \<Rightarrow>
          (case gs prev of
             None \<Rightarrow> []
           | Some pg \<Rightarrow>
               let dgs = g - pg
               in if \<bar>dgs\<bar> > max_dgs_kts
                  then [[char_of (206::nat), char_of (148::nat)] @ ''GS anomalo: ''
                          @ fmt_plus_0f dgs @ '' kt'']
                  else []))"

definition vs_finding :: "Aircraft \<Rightarrow> Aircraft \<Rightarrow> real \<Rightarrow> real \<Rightarrow> string list" where
  "vs_finding ac prev dt_sec max_vs_fpm =
     (case alt_baro ac of
        None \<Rightarrow> []
      | Some a \<Rightarrow>
          (case alt_baro prev of
             None \<Rightarrow> []
           | Some pa \<Rightarrow>
               let vs_fpm = (of_int (a - pa) / dt_sec) * 60
               in if \<bar>vs_fpm\<bar> > max_vs_fpm
                  then [''VS anomala: '' @ fmt_0f vs_fpm @ '' fpm'']
                  else []))"

text \<open>
  \<^verbatim>\<open>detect_anomalies\<close> (lines 413-452). The delta checks need a previous state and
  a \<^verbatim>\<open>dt_sec\<close> that is present, not zero, and positive. The result is
  \<^verbatim>\<open>sorted(seen)\<close>: the distinct findings in ascending order.
\<close>

definition detect_anomalies ::
  "Aircraft \<Rightarrow> Aircraft option \<Rightarrow> real option \<Rightarrow> int \<Rightarrow> int \<Rightarrow> real \<Rightarrow> real \<Rightarrow> real \<Rightarrow> real
     \<Rightarrow> string list" where
  "detect_anomalies ac prev dt_sec min_alt_ft max_alt_ft min_gs_kt max_gs_kt max_vs_fpm max_dgs_kts =
     (let seen = squawk_finding ac
                 @ gs_finding ac min_gs_kt max_gs_kt
                 @ alt_finding ac min_alt_ft max_alt_ft
                 @ (case prev of
                      None \<Rightarrow> []
                    | Some p \<Rightarrow>
                        (case dt_sec of
                           None \<Rightarrow> []
                         | Some dt \<Rightarrow>
                             if dt \<noteq> 0 \<and> dt > 0
                             then dgs_finding ac p max_dgs_kts @ vs_finding ac p dt max_vs_fpm
                             else []))
      in sort (remdups seen))"

subsection \<open>Pattern classifier\<close>

text \<open>
  \<^verbatim>\<open>min(xs)\<close> and \<^verbatim>\<open>max(xs)\<close> of a list, which raise \<^verbatim>\<open>ValueError\<close> on the empty
  list; the callers below branch on the empty list before they use these.
\<close>

definition list_min :: "real list \<Rightarrow> real" where
  "list_min xs = fold min (tl xs) (hd xs)"

definition list_max :: "real list \<Rightarrow> real" where
  "list_max xs = fold max (tl xs) (hd xs)"

text \<open>
  The number of sign changes of \<^verbatim>\<open>lat - mid_lat\<close> between consecutive points (lines
  309-313).
\<close>

definition midline_crossings :: "(real \<times> real) list \<Rightarrow> real \<Rightarrow> nat" where
  "midline_crossings track mid_lat =
     length (filter (\<lambda>(p, q). (fst p - mid_lat) * (fst q - mid_lat) < 0) (zip track (tl track)))"

text \<open>
  The great-circle distance as the interpreter computes it. In doubles the rounding
  inside \<^verbatim>\<open>haversine_km\<close> can take \<open>a\<close> above 1 for points that are nearly
  antipodal, and \<^verbatim>\<open>math.sqrt(1 - a)\<close> then raises \<^verbatim>\<open>ValueError\<close>. The pattern
  detectors therefore take the computed distance as a parameter that may raise, and
  what is proved of them holds whatever that function is. \<open>exact_dist\<close> is the
  distance without rounding, which never raises.
\<close>

type_synonym distance = "real \<times> real \<Rightarrow> real \<times> real \<Rightarrow> py_error + real"

definition exact_dist :: distance where
  "exact_dist p1 p2 = Inr (haversine_km p1 p2)"

text \<open>
  \<^verbatim>\<open>detect_loop_or_racetrack\<close> (lines 284-317). \<^verbatim>\<open>track[0]\<close> raises
  \<^verbatim>\<open>IndexError\<close> on an empty track, which the length test lets through when
  \<^verbatim>\<open>min_points\<close> is not positive.
\<close>

definition detect_loop_or_racetrack ::
  "distance \<Rightarrow> (real \<times> real) list \<Rightarrow> real \<Rightarrow> int \<Rightarrow> real \<Rightarrow> int \<Rightarrow> py_error + string option" where
  "detect_loop_or_racetrack hav track loop_close_km min_points min_span_km min_laps =
     (if int (length track) < min_points then Inr None
      else if track = [] then Inl IndexError
      else
        and_then (hav (hd track) (last track)) (\<lambda>dist_start_end.
          if dist_start_end > loop_close_km then Inr None
          else
            let lats = map fst track;
                lons = map snd track
            in
              and_then (hav (list_min lats, list_min lons) (list_max lats, list_min lons))
                (\<lambda>span_lat.
              and_then (hav (list_min lats, list_min lons) (list_min lats, list_max lons))
                (\<lambda>span_lon.
                let major = max span_lat span_lon;
                    minor = min span_lat span_lon
                in if major < min_span_km \<or> minor < 2 then Inr None
                   else
                     let aspect_ratio = major / (minor + 1 / 1000000);
                         shape = (if aspect_ratio < 3 / 2 then ''LOOP/CERCHIO'' else ''RACETRACK'');
                         mid_lat = (list_max lats + list_min lats) / 2;
                         crossings = midline_crossings track mid_lat
                     in if int crossings < min_laps * 2 then Inr None
                        else Inr (Some shape)))))"

text \<open>The bearings of the consecutive point pairs, those of coincident points left out.\<close>

definition track_headings :: "(real \<times> real) list \<Rightarrow> real list" where
  "track_headings track = List.map_filter (\<lambda>(p, q). heading p q) (zip track (tl track))"














text \<open>
  The rounded bearings of \<^verbatim>\<open>detect_mesh\<close> (lines 371-372): nearest multiple of 10
  (\<^verbatim>\<open>round\<close> sends a tie to the even integer), folded into \<open>[0, 180)\<close>.
\<close>

definition mesh_heads :: "(real \<times> real) list \<Rightarrow> int list" where
  "mesh_heads track = map (\<lambda>h. (round_half_even (h / 10) * 10) mod 180) (track_headings track)"

text \<open>The candidate axis pairs (lines 376-378), in the order of the comprehension.\<close>

definition mesh_pairs :: "int list \<Rightarrow> real \<Rightarrow> (int \<times> int) list" where
  "mesh_pairs heads perpendicular_tolerance =
     (let uniq = sort (remdups heads)
      in concat (map (\<lambda>a. map (\<lambda>b. (a, b))
                     (filter (\<lambda>b. of_int \<bar>((a - b) + 180) mod 180 - 90\<bar> \<le> perpendicular_tolerance) uniq))
                   uniq))"

text \<open>The nested function \<^verbatim>\<open>family\<close> (lines 382-387).\<close>

definition family :: "int \<Rightarrow> int \<Rightarrow> int \<Rightarrow> real \<Rightarrow> string option" where
  "family h a b tol =
     (if of_int \<bar>((h - a) + 180) mod 180\<bar> \<le> tol then Some ''A''
      else if of_int \<bar>((h - b) + 180) mod 180\<bar> \<le> tol then Some ''B''
      else None)"

text \<open>
  The loop at lines 390-400: the state is the two counters of \<^verbatim>\<open>fam_counts\<close>, the
  number of crossings and the last family seen.
\<close>

fun mesh_scan ::
  "int \<Rightarrow> int \<Rightarrow> real \<Rightarrow> int list \<Rightarrow> nat \<times> nat \<times> nat \<times> string option
     \<Rightarrow> nat \<times> nat \<times> nat \<times> string option" where
  "mesh_scan a b tol [] st = st"
| "mesh_scan a b tol (h # hs) (ca, cb, crossings, lst) =
     (case family h a b tol of
        None \<Rightarrow> mesh_scan a b tol hs (ca, cb, crossings, lst)
      | Some f \<Rightarrow>
          let ca' = (if f = ''A'' then ca + 1 else ca);
              cb' = (if f = ''B'' then cb + 1 else cb)
          in if Some f \<noteq> lst then mesh_scan a b tol hs (ca', cb', crossings + 1, Some f)
             else mesh_scan a b tol hs (ca', cb', crossings, lst))"

text \<open>\<^verbatim>\<open>detect_mesh\<close> (lines 363-408).\<close>

definition detect_mesh :: "(real \<times> real) list \<Rightarrow> int \<Rightarrow> real \<Rightarrow> int \<Rightarrow> real \<Rightarrow> bool" where
  "detect_mesh track min_points perpendicular_tolerance min_crossings min_family_ratio =
     (if int (length track) < min_points then False
      else
        let heads = mesh_heads track
        in if heads = [] then False
           else
             (case mesh_pairs heads perpendicular_tolerance of
                [] \<Rightarrow> False
              | (a, b) # _ \<Rightarrow>
                  (case mesh_scan a b perpendicular_tolerance heads (0, 0, 0, None) of
                     (ca, cb, crossings, _) \<Rightarrow>
                       let total = ca + cb
                       in if total = 0 then False
                          else if real ca / real total < min_family_ratio
                                  \<or> real cb / real total < min_family_ratio
                          then False
                          else int crossings \<ge> min_crossings)))"

text \<open>
  The angular distance between a bearing and an axis when directions that differ by
  180 degrees count as one, as the specification words the family assignment: the
  smaller of the two differences modulo 180.
\<close>

definition folded_distance :: "int \<Rightarrow> int \<Rightarrow> int" where
  "folded_distance h a = min ((h - a) mod 180) ((a - h) mod 180)"

subsection \<open>Snapshot normalizer\<close>

text \<open>
  What the normalizer takes from Python's built-ins and this development does not
  define: how \<^verbatim>\<open>float\<close> and \<^verbatim>\<open>int\<close> read a string (\<open>None\<close> where they raise
  \<^verbatim>\<open>ValueError\<close>), and the text \<^verbatim>\<open>str\<close> gives for a float, a list or a dict.
  Every function below that depends on them takes them as its first argument.
\<close>

record builtins =
  float_of_str :: "string \<Rightarrow> pyfloat option"
  int_of_str :: "string \<Rightarrow> int option"
  repr_of :: "pyval \<Rightarrow> string"

text \<open>The truth value of a Python value, and \<^verbatim>\<open>a or b\<close>.\<close>

fun py_truthy :: "pyval \<Rightarrow> bool" where
  "py_truthy PNone = False"
| "py_truthy (PBool b) = b"
| "py_truthy (PInt i) = (i \<noteq> 0)"
| "py_truthy (PFloat f) = (f \<noteq> FFin 0)"
| "py_truthy (PStr s) = (s \<noteq> [])"
| "py_truthy (PList xs) = (xs \<noteq> [])"
| "py_truthy (PDict kvs) = (kvs \<noteq> [])"

definition py_or :: "pyval \<Rightarrow> pyval \<Rightarrow> pyval" where
  "py_or a b = (if py_truthy a then a else b)"

text \<open>\<^verbatim>\<open>ac.get(key)\<close> on a dict: \<^verbatim>\<open>None\<close> for a missing key.\<close>

definition dict_get :: "(string \<times> pyval) list \<Rightarrow> string \<Rightarrow> pyval" where
  "dict_get d k = (case map_of d k of None \<Rightarrow> PNone | Some v \<Rightarrow> v)"

text \<open>
  \<^verbatim>\<open>float(val)\<close>. An integer of magnitude \<open>2^1024 - 2^970\<close> or more is too large
  for a float; a float, finite or not, is returned as it is.
\<close>

fun py_float :: "builtins \<Rightarrow> pyval \<Rightarrow> py_error + pyfloat" where
  "py_float B PNone = Inl TypeError"
| "py_float B (PBool b) = Inr (FFin (if b then 1 else 0))"
| "py_float B (PInt i) =
     (if \<bar>i\<bar> \<ge> 2 ^ 1024 - 2 ^ 970 then Inl OverflowError else Inr (FFin (of_int i)))"
| "py_float B (PFloat f) = Inr f"
| "py_float B (PStr s) = (case float_of_str B s of None \<Rightarrow> Inl ValueError | Some f \<Rightarrow> Inr f)"
| "py_float B (PList xs) = Inl TypeError"
| "py_float B (PDict kvs) = Inl TypeError"

text \<open>
  \<^verbatim>\<open>int(val)\<close>; a finite float is truncated towards zero, an infinity raises
  \<^verbatim>\<open>OverflowError\<close> and NaN raises \<^verbatim>\<open>ValueError\<close>.
\<close>

fun py_int :: "builtins \<Rightarrow> pyval \<Rightarrow> py_error + int" where
  "py_int B PNone = Inl TypeError"
| "py_int B (PBool b) = Inr (if b then 1 else 0)"
| "py_int B (PInt i) = Inr i"
| "py_int B (PFloat (FFin r)) = Inr (if 0 \<le> r then \<lfloor>r\<rfloor> else \<lceil>r\<rceil>)"
| "py_int B (PFloat (FInf negative)) = Inl OverflowError"
| "py_int B (PFloat FNaN) = Inl ValueError"
| "py_int B (PStr s) = (case int_of_str B s of None \<Rightarrow> Inl ValueError | Some i \<Rightarrow> Inr i)"
| "py_int B (PList xs) = Inl TypeError"
| "py_int B (PDict kvs) = Inl TypeError"

text \<open>
  \<^verbatim>\<open>safe_int\<close> and \<^verbatim>\<open>safe_float\<close> (lines 87-97): \<^verbatim>\<open>TypeError\<close> and
  \<^verbatim>\<open>ValueError\<close> become \<^verbatim>\<open>None\<close>, any other exception propagates.
\<close>

definition safe_int :: "builtins \<Rightarrow> pyval \<Rightarrow> py_error + int option" where
  "safe_int B val =
     (case py_int B val of
        Inr i \<Rightarrow> Inr (Some i)
      | Inl e \<Rightarrow> if e = TypeError \<or> e = ValueError then Inr None else Inl e)"

definition safe_float :: "builtins \<Rightarrow> pyval \<Rightarrow> py_error + pyfloat option" where
  "safe_float B val =
     (case py_float B val of
        Inr f \<Rightarrow> Inr (Some f)
      | Inl e \<Rightarrow> if e = TypeError \<or> e = ValueError then Inr None else Inl e)"

text \<open>\<^verbatim>\<open>str(val)\<close>, and the ASCII action of \<^verbatim>\<open>str.lower()\<close>.\<close>

fun py_str :: "builtins \<Rightarrow> pyval \<Rightarrow> string" where
  "py_str B (PStr s) = s"
| "py_str B PNone = ''None''"
| "py_str B (PBool b) = (if b then ''True'' else ''False'')"
| "py_str B (PInt i) = str_int i"
| "py_str B v = repr_of B v"

definition py_lower :: "string \<Rightarrow> string" where
  "py_lower s =
     map (\<lambda>c. let n = (of_char c :: nat) in if 65 \<le> n \<and> n \<le> 90 then char_of (n + 32) else c) s"

text \<open>\<^verbatim>\<open>safe_bool\<close> (lines 99-107).\<close>

definition safe_bool :: "builtins \<Rightarrow> pyval \<Rightarrow> bool option" where
  "safe_bool B val =
     (case val of
        PBool b \<Rightarrow> Some b
      | _ \<Rightarrow>
          let s = py_lower (py_strip (py_str B val))
          in if s \<in> {''true'', ''1'', ''yes''} then Some True
             else if s \<in> {''false'', ''0'', ''no''} then Some False
             else None)"

text \<open>
  \<^verbatim>\<open>v.lower()\<close> and \<^verbatim>\<open>v.strip()\<close> on a value that need not be a string: only a
  string has the method, any other value raises \<^verbatim>\<open>AttributeError\<close>.
\<close>

definition lower_method :: "pyval \<Rightarrow> py_error + string" where
  "lower_method v = (case v of PStr s \<Rightarrow> Inr (py_lower s) | _ \<Rightarrow> Inl AttributeError)"

definition strip_method :: "pyval \<Rightarrow> py_error + string" where
  "strip_method v = (case v of PStr s \<Rightarrow> Inr (py_strip s) | _ \<Rightarrow> Inl AttributeError)"

text \<open>\<^verbatim>\<open>needle in s\<close> on strings.\<close>

fun str_contains :: "string \<Rightarrow> string \<Rightarrow> bool" where
  "str_contains needle [] = (needle = [])"
| "str_contains needle (c # cs) =
     (take (length needle) (c # cs) = needle \<or> str_contains needle cs)"

text \<open>
  The float fields of a state hold finite values. \<open>finite_field\<close> reads what
  \<^verbatim>\<open>safe_float\<close> returned: the absent field, the finite value, or \<open>None\<close> for an
  infinity or NaN, which the source stores in the field as it is and the states here
  cannot hold.
\<close>

definition finite_field :: "pyfloat option \<Rightarrow> real option option" where
  "finite_field v =
     (case v of
        None \<Rightarrow> Some None
      | Some (FFin r) \<Rightarrow> Some (Some r)
      | Some _ \<Rightarrow> None)"

text \<open>The four float fields of a state, when all of them are finite or absent.\<close>

definition finite_fields ::
  "pyfloat option \<Rightarrow> pyfloat option \<Rightarrow> pyfloat option \<Rightarrow> pyfloat option
     \<Rightarrow> (real option \<times> real option \<times> real option \<times> real option) option" where
  "finite_fields v_lat v_lon v_gs v_ts =
     (case finite_field v_lat of
        None \<Rightarrow> None
      | Some f_lat \<Rightarrow>
          (case finite_field v_lon of
             None \<Rightarrow> None
           | Some f_lon \<Rightarrow>
               (case finite_field v_gs of
                  None \<Rightarrow> None
                | Some f_gs \<Rightarrow>
                    (case finite_field v_ts of
                       None \<Rightarrow> None
                     | Some f_ts \<Rightarrow> Some (f_lat, f_lon, f_gs, f_ts)))))"

text \<open>
  The construction of one \<^verbatim>\<open>Aircraft\<close> from one item of \<^verbatim>\<open>merged\<close> (lines
  580-602), the arguments evaluated in the order they are written. An item that is not
  a dict has no \<^verbatim>\<open>get\<close>. The result is the exception raised, or \<open>Some\<close> state,
  or \<open>None\<close> when the source builds a state one of whose float fields is not finite.
\<close>

definition normalize :: "builtins \<Rightarrow> pyval \<Rightarrow> py_error + Aircraft option" where
  "normalize B item =
     (case item of
        PDict ac \<Rightarrow>
          and_then (lower_method (py_or (dict_get ac ''hex'') (PStr []))) (\<lambda>v_hex.
          and_then (strip_method (py_or (dict_get ac ''flight'') (PStr []))) (\<lambda>v_flight.
          and_then (safe_float B (dict_get ac ''lat'')) (\<lambda>v_lat.
          and_then (safe_float B (dict_get ac ''lon'')) (\<lambda>v_lon.
          and_then (safe_int B (dict_get ac ''alt_baro'')) (\<lambda>v_alt.
          and_then (safe_float B (dict_get ac ''gs'')) (\<lambda>v_gs.
          and_then (safe_float B (py_or (dict_get ac ''seen_pos_timestamp'')
                                        (dict_get ac ''seen_timestamp''))) (\<lambda>v_ts.
          and_then (strip_method (py_or (dict_get ac ''r'')
                                        (py_or (dict_get ac ''reg'') (PStr [])))) (\<lambda>v_reg.
            Inr (map_option
              (\<lambda>(f_lat, f_lon, f_gs, f_ts).
                \<lparr>hex = v_hex,
                 flight = v_flight,
                 lat = f_lat,
                 lon = f_lon,
                 alt_baro = v_alt,
                 gs = f_gs,
                 ts = f_ts,
                 reg = (if v_reg \<noteq> [] then Some v_reg else None),
                 squawk = (if py_truthy (dict_get ac ''squawk'')
                           then Some (py_strip (py_str B (dict_get ac ''squawk''))) else None),
                 ground = safe_bool B (dict_get ac ''ground''),
                 model_desc = (if py_truthy (dict_get ac ''desc'')
                               then Some (dict_get ac ''desc'') else None),
                 model_t = (if py_truthy (dict_get ac ''t'') then Some (dict_get ac ''t'') else None),
                 is_mil = (py_truthy (dict_get ac ''force_mil'')
                           \<or> py_truthy (dict_get ac ''military'')
                           \<or> py_truthy (dict_get ac ''isMil'')
                           \<or> py_truthy (dict_get ac ''mil'')
                           \<or> str_contains ''military''
                                (py_lower (py_str B (py_or (dict_get ac ''dbFlags'') (PStr [])))))\<rparr>)
              (finite_fields v_lat v_lon v_gs v_ts))))))))))
      | _ \<Rightarrow> Inl AttributeError)"

text \<open>
  The loop at lines 577-604: an item whose construction raises is skipped
  (\<^verbatim>\<open>except Exception: continue\<close>), the others are appended in order. An entry
  \<open>None\<close> of the result is a state kept with a float field that is not finite.
\<close>

definition normalize_all :: "builtins \<Rightarrow> pyval list \<Rightarrow> Aircraft option list" where
  "normalize_all B merged =
     List.map_filter (\<lambda>item. case normalize B item of Inl _ \<Rightarrow> None | Inr a \<Rightarrow> Some a) merged"

text \<open>
  An instance of the built-ins for the examples: it reads the plain decimal integer
  literals, with an optional sign and surrounding whitespace, as Python does, and rejects
  every other string; the examples give it no other numeric text.
\<close>

definition read_digits :: "string \<Rightarrow> int option" where
  "read_digits s =
     (if s \<noteq> [] \<and> list_all (\<lambda>c. 48 \<le> (of_char c :: nat) \<and> (of_char c :: nat) \<le> 57) s
      then Some (foldl (\<lambda>n c. 10 * n + (int (of_char c) - 48)) 0 s)
      else None)"

definition read_int :: "string \<Rightarrow> int option" where
  "read_int s =
     (case py_strip s of
        [] \<Rightarrow> None
      | c # cs \<Rightarrow>
          if c = CHR ''-'' then map_option uminus (read_digits cs)
          else if c = CHR ''+'' then read_digits cs
          else read_digits (c # cs))"

definition example_builtins :: builtins where
  "example_builtins =
     \<lparr>float_of_str = (\<lambda>s. map_option (\<lambda>i. FFin (of_int i)) (read_int s)),
      int_of_str = read_int,
      repr_of = (\<lambda>_. ''<repr>'')\<rparr>"

text \<open>
  The ways an argument of the construction can raise past the helpers: a method call
  on a value that is neither a string nor false (it is replaced by the empty string
  when false), the float coercion of an integer that is too large, and the integer
  coercion of an infinity.
\<close>

definition str_or_falsy :: "pyval \<Rightarrow> bool" where
  "str_or_falsy v = (case v of PStr s \<Rightarrow> True | _ \<Rightarrow> \<not> py_truthy v)"

definition float_overflows :: "pyval \<Rightarrow> bool" where
  "float_overflows v = (case v of PInt i \<Rightarrow> \<bar>i\<bar> \<ge> 2 ^ 1024 - 2 ^ 970 | _ \<Rightarrow> False)"

definition int_overflows :: "pyval \<Rightarrow> bool" where
  "int_overflows v = (case v of PFloat (FInf negative) \<Rightarrow> True | _ \<Rightarrow> False)"

text \<open>
  The value of an optional numeric field of a state after a coercion: absent when the
  coercion failed.
\<close>

definition coerced_float :: "py_error + pyfloat \<Rightarrow> real option" where
  "coerced_float r = (case r of Inr (FFin x) \<Rightarrow> Some x | _ \<Rightarrow> None)"

definition coerced_int :: "py_error + int \<Rightarrow> int option" where
  "coerced_int r = (case r of Inl _ \<Rightarrow> None | Inr i \<Rightarrow> Some i)"

text \<open>Whether a coercion returned a float that is not finite.\<close>

definition non_finite :: "py_error + pyfloat \<Rightarrow> bool" where
  "non_finite r = (case r of Inr (FInf negative) \<Rightarrow> True | Inr FNaN \<Rightarrow> True | _ \<Rightarrow> False)"

section \<open>Properties\<close>

subsection \<open>Cooldown ledger\<close>

text \<open>
  Claim C2. The ledger check at time \<open>t\<close> succeeds iff \<open>t\<close> minus the last recorded
  successful-alert time of the key (0 for an absent key) is at least the window, and the
  recorded time becomes \<open>t\<close> only on success. After a success at \<open>t1\<close>, a check at
  \<open>t2\<close> with \<open>t2 - t1 < w\<close> is suppressed and leaves the ledger unchanged, and a third
  check at \<open>t3\<close> succeeds iff \<open>t3 - t1 \<ge> w\<close>: the window is measured from the first
  success.
\<close>

theorem C2_cooldown_ledger:
  "(fst (check_and_mark L k t w) \<longleftrightarrow> t - last_get L k \<ge> of_int w) \<and>
   snd (check_and_mark L k t w) = (if t - last_get L k \<ge> of_int w then L(k \<mapsto> t) else L) \<and>
   (fst (check_and_mark L k t1 w) \<and> t2 - t1 < of_int w \<longrightarrow>
      (let L1 = snd (check_and_mark L k t1 w); L2 = snd (check_and_mark L1 k t2 w) in
         last_get L1 k = t1 \<and> \<not> fst (check_and_mark L1 k t2 w) \<and> L2 = L1 \<and>
         (fst (check_and_mark L2 k t3 w) \<longleftrightarrow> t3 - t1 \<ge> of_int w)))"
  by (auto simp: check_and_mark_def last_get_def Let_def)

theorem C2_cooldown_ledger_witness:
  "fst (check_and_mark Map.empty ''4ca1d3'' 1000 300) \<and> (1100::real) - 1000 < of_int 300 \<and>
   (let L1 = snd (check_and_mark Map.empty ''4ca1d3'' 1000 300);
        L2 = snd (check_and_mark L1 ''4ca1d3'' 1100 300) in
      last_get L1 ''4ca1d3'' = 1000 \<and> \<not> fst (check_and_mark L1 ''4ca1d3'' 1100 300) \<and> L2 = L1 \<and>
      \<not> fst (check_and_mark L2 ''4ca1d3'' 1299 300) \<and> fst (check_and_mark L2 ''4ca1d3'' 1300 300))"
proof -
  have s: "fst (check_and_mark Map.empty ''4ca1d3'' 1000 300)"
    by (simp add: check_and_mark_def last_get_def)
  have w: "(1100::real) - 1000 < of_int 300" by simp
  show ?thesis
    using s w
      C2_cooldown_ledger [of Map.empty "''4ca1d3''" 1000 300 1000 1100 1299]
      C2_cooldown_ledger [of Map.empty "''4ca1d3''" 1000 300 1000 1100 1300]
    by (simp add: Let_def check_and_mark_def last_get_def)
qed

subsection \<open>Track history\<close>

lemma deque_append_length:
  "length q \<le> n \<Longrightarrow> 0 < n \<Longrightarrow> length (deque_append n q x) \<le> n"
  by (auto simp: deque_append_def Let_def)

lemma track_append_bounded:
  assumes "\<forall>h. length (th h) \<le> TRACK_MAXLEN"
  shows "\<forall>h. length (track_append th ac h) \<le> TRACK_MAXLEN"
  using assms
  by (auto simp: track_append_def TRACK_MAXLEN_def deque_append_length split: option.splits)

lemma track_fold_bounded:
  "\<forall>h. length (th h) \<le> TRACK_MAXLEN \<Longrightarrow>
   \<forall>h. length (fold (\<lambda>ac th'. track_append th' ac) acs th h) \<le> TRACK_MAXLEN"
proof (induction acs arbitrary: th)
  case Nil
  then show ?case by simp
next
  case (Cons a acs)
  have "\<forall>h. length (track_append th a h) \<le> TRACK_MAXLEN"
    using Cons.prems by (rule track_append_bounded)
  from Cons.IH [OF this] show ?case by simp
qed

text \<open>
  Claim C9. Starting from the empty store, and from any store whose histories hold at
  most 120 points, every history holds at most 120 points after any sequence of
  appends; an append below the bound adds the position at the end (insertion order); an
  append to a full history drops the oldest entry and adds the new one at the end
  (FIFO); a state without lat or without lon leaves the store as it is; and an append
  touches the history of its own hex only.
\<close>

theorem C9_track_history:
  "(\<forall>h. length (track_cycle track_empty acs h) \<le> 120) \<and>
   ((\<forall>h. length (th h) \<le> 120) \<longrightarrow> (\<forall>h. length (track_cycle th acs h) \<le> 120)) \<and>
   (lat ac = Some la \<and> lon ac = Some lo \<and> length (th (hex ac)) < 120 \<longrightarrow>
      track_append th ac (hex ac) = th (hex ac) @ [(la, lo)]) \<and>
   (lat ac = Some la \<and> lon ac = Some lo \<and> length (th (hex ac)) = 120 \<longrightarrow>
      track_append th ac (hex ac) = tl (th (hex ac)) @ [(la, lo)]) \<and>
   (lat ac = None \<or> lon ac = None \<longrightarrow> track_append th ac = th) \<and>
   (h \<noteq> hex ac \<longrightarrow> track_append th ac h = th h)"
proof -
  have e: "\<forall>h. length (track_empty h) \<le> TRACK_MAXLEN"
    by (simp add: track_empty_def)
  have 1: "\<forall>h. length (track_cycle track_empty acs h) \<le> 120"
    using track_fold_bounded [OF e, of acs] by (simp add: track_cycle_def TRACK_MAXLEN_def)
  have 2: "(\<forall>h. length (th h) \<le> 120) \<longrightarrow> (\<forall>h. length (track_cycle th acs h) \<le> 120)"
    using track_fold_bounded [of th acs] by (simp add: track_cycle_def TRACK_MAXLEN_def)
  have 3: "lat ac = Some la \<and> lon ac = Some lo \<and> length (th (hex ac)) < 120 \<longrightarrow>
      track_append th ac (hex ac) = th (hex ac) @ [(la, lo)]"
    by (simp add: track_append_def deque_append_def TRACK_MAXLEN_def Let_def)
  have 4: "lat ac = Some la \<and> lon ac = Some lo \<and> length (th (hex ac)) = 120 \<longrightarrow>
      track_append th ac (hex ac) = tl (th (hex ac)) @ [(la, lo)]"
  proof (intro impI, elim conjE)
    assume a: "lat ac = Some la" "lon ac = Some lo" "length (th (hex ac)) = 120"
    then have "th (hex ac) \<noteq> []" by auto
    with a show "track_append th ac (hex ac) = tl (th (hex ac)) @ [(la, lo)]"
      by (simp add: track_append_def deque_append_def TRACK_MAXLEN_def Let_def)
  qed
  have 5: "lat ac = None \<or> lon ac = None \<longrightarrow> track_append th ac = th"
    by (auto simp: track_append_def split: option.splits)
  have 6: "h \<noteq> hex ac \<longrightarrow> track_append th ac h = th h"
    by (auto simp: track_append_def split: option.splits)
  from 1 2 3 4 5 6 show ?thesis by blast
qed

theorem C9_track_history_witness:
  "length (track_cycle (\<lambda>_. replicate 120 (0, 0))
      [(blank_aircraft ''4ca1d3'')\<lparr>lat := Some 45, lon := Some 9\<rparr>] ''4ca1d3'') \<le> 120 \<and>
   track_append track_empty ((blank_aircraft ''4ca1d3'')\<lparr>lat := Some 45, lon := Some 9\<rparr>) ''4ca1d3''
     = [(45, 9)] \<and>
   track_append (\<lambda>_. replicate 120 (0, 0))
      ((blank_aircraft ''4ca1d3'')\<lparr>lat := Some 45, lon := Some 9\<rparr>) ''4ca1d3''
     = tl (replicate 120 (0, 0)) @ [(45, 9)] \<and>
   track_append track_empty ((blank_aircraft ''4ca1d3'')\<lparr>lat := Some 45\<rparr>) = track_empty \<and>
   track_append track_empty ((blank_aircraft ''4ca1d3'')\<lparr>lat := Some 45, lon := Some 9\<rparr>) ''3c6444''
     = []"
  using
    C9_track_history [of "[(blank_aircraft ''4ca1d3'')\<lparr>lat := Some 45, lon := Some 9\<rparr>]"
       "\<lambda>_. replicate 120 (0, 0)" "(blank_aircraft ''4ca1d3'')\<lparr>lat := Some 45, lon := Some 9\<rparr>"
       45 9 "''3c6444''"]
    C9_track_history [of "[]" track_empty
       "(blank_aircraft ''4ca1d3'')\<lparr>lat := Some 45, lon := Some 9\<rparr>" 45 9 "''3c6444''"]
    C9_track_history [of "[]" track_empty "(blank_aircraft ''4ca1d3'')\<lparr>lat := Some 45\<rparr>" 45 9
       "''3c6444''"]
  by (simp add: blank_aircraft_def track_empty_def)

subsection \<open>Proximity classifier\<close>

lemma sin_half_diff_sq:
  fixes x y :: real
  shows "(sin ((x - y) / 2))\<^sup>2 = (sin ((y - x) / 2))\<^sup>2"
proof -
  have "(x - y) / 2 = - ((y - x) / 2)" by (simp add: field_simps)
  then have "sin ((x - y) / 2) = - sin ((y - x) / 2)" by (metis sin_minus)
  then show ?thesis by simp
qed

lemma haversine_km_sym: "haversine_km p q = haversine_km q p"
  unfolding haversine_km_def Let_def
  by (simp add: sin_half_diff_sq [of "radians (fst p)" "radians (fst q)"]
      sin_half_diff_sq [of "radians (snd p)" "radians (snd q)"] mult.commute)

lemma angle_diff_deg_sym: "angle_diff_deg a b = angle_diff_deg b a"
  by (simp add: angle_diff_deg_def abs_minus_commute)

lemma same_direction_sym: "same_direction h1 h2 t = same_direction h2 h1 t"
  by (auto simp: same_direction_def angle_diff_deg_sym split: option.splits)

lemma prox_key_sym: "prox_key a b l = prox_key b a l"
  by (simp add: prox_key_def insort_is_Cons) (auto simp: insort_is_Cons)

text \<open>
  Claim C5. Proximity classification is symmetric: with the current headings derived
  from the track histories, swapping the two aircraft of the pairwise check gives the
  same result of the distance, altitude-difference, speed-difference and
  heading-alignment gates, the same label (the pursuit test is tried in both
  leader/follower directions), and the same outcome of the whole check, cooldown key
  and distance included.
\<close>

theorem C5_proximity_symmetric:
  "dist_gate args p1 p2 = dist_gate args p2 p1 \<and>
   alt_ok args ac1 ac2 = alt_ok args ac2 ac1 \<and>
   gs_ok args ac1 ac2 = gs_ok args ac2 ac1 \<and>
   dir_ok args th ac1 ac2 = dir_ok args th ac2 ac1 \<and>
   prox_label args p1 h1 p2 h2 = prox_label args p2 h2 p1 h1 \<and>
   prox_pair args th ac1 ac2 = prox_pair args th ac2 ac1"
proof -
  have d: "dist_gate args p q = dist_gate args q p" for p q
    by (simp add: dist_gate_def haversine_km_sym [of p q])
  have a: "alt_ok args ac1 ac2 = alt_ok args ac2 ac1"
    by (auto simp: alt_ok_def abs_minus_commute split: option.splits)
  have g: "gs_ok args ac1 ac2 = gs_ok args ac2 ac1"
    by (auto simp: gs_ok_def abs_minus_commute split: option.splits)
  have h: "dir_ok args th ac1 ac2 = dir_ok args th ac2 ac1"
    by (simp add: dir_ok_def same_direction_sym [of "cur_head th (hex ac1)"])
  have l: "prox_label args p k q m = prox_label args q m p k" for p k q m
    by (auto simp: prox_label_def)
  have p: "prox_pair args th ac1 ac2 = prox_pair args th ac2 ac1"
  proof (cases "known_position ac1")
    case None
    then show ?thesis by (simp add: prox_pair_def split: option.splits)
  next
    case p1: (Some q1)
    show ?thesis
    proof (cases "known_position ac2")
      case None
      with p1 show ?thesis by (simp add: prox_pair_def)
    next
      case p2: (Some q2)
      show ?thesis
        using p1 p2 d [of q1 q2] a g h
          l [of q1 "cur_head th (hex ac1)" q2 "cur_head th (hex ac2)"]
          prox_key_sym [of ac1 ac2] haversine_km_sym [of q1 q2]
        by (auto simp: prox_pair_def Let_def)
    qed
  qed
  from d a g h l p show ?thesis by blast
qed

text \<open>
  Claim C10. In the proximity classifier an aircraft whose latitude or longitude is
  exactly 0.0 fails the truthiness position test, so a pair in which either aircraft
  sits on the equator or on the prime meridian produces no finding, although its
  position is known; the track-history append tests for \<^verbatim>\<open>None\<close> and does append
  such a position.
\<close>

theorem C10_zero_coordinate:
  "(lat ac1 = Some 0 \<or> lon ac1 = Some 0 \<or> lat ac2 = Some 0 \<or> lon ac2 = Some 0 \<longrightarrow>
      prox_pair args th ac1 ac2 = None) \<and>
   (lat ac = Some la \<and> lon ac = Some lo \<and> (la = 0 \<or> lo = 0) \<longrightarrow>
      track_append th ac (hex ac) = deque_append TRACK_MAXLEN (th (hex ac)) (la, lo) \<and>
      last (track_append th ac (hex ac)) = (la, lo))"
proof -
  have 1: "lat ac1 = Some 0 \<or> lon ac1 = Some 0 \<or> lat ac2 = Some 0 \<or> lon ac2 = Some 0 \<longrightarrow>
      prox_pair args th ac1 ac2 = None"
    by (auto simp: prox_pair_def known_position_def split: option.splits)
  have 2: "lat ac = Some la \<and> lon ac = Some lo \<and> (la = 0 \<or> lo = 0) \<longrightarrow>
      track_append th ac (hex ac) = deque_append TRACK_MAXLEN (th (hex ac)) (la, lo) \<and>
      last (track_append th ac (hex ac)) = (la, lo)"
    by (cases "th (hex ac)")
       (auto simp: track_append_def deque_append_def TRACK_MAXLEN_def Let_def)
  from 1 2 show ?thesis by blast
qed

theorem C10_zero_coordinate_witness:
  "prox_pair default_prox_args track_empty ((blank_aircraft ''4ca1d3'')\<lparr>lat := Some 0, lon := Some 9\<rparr>)
      ((blank_aircraft ''3c6444'')\<lparr>lat := Some 1, lon := Some 9\<rparr>) = None \<and>
   prox_pair default_prox_args track_empty ((blank_aircraft ''3c6444'')\<lparr>lat := Some 1, lon := Some 9\<rparr>)
      ((blank_aircraft ''4ca1d3'')\<lparr>lat := Some 45, lon := Some 0\<rparr>) = None \<and>
   track_append track_empty ((blank_aircraft ''4ca1d3'')\<lparr>lat := Some 0, lon := Some 9\<rparr>) ''4ca1d3''
     = [(0, 9)] \<and>
   track_append track_empty ((blank_aircraft ''4ca1d3'')\<lparr>lat := Some 45, lon := Some 0\<rparr>) ''4ca1d3''
     = [(45, 0)]"
  using
    C10_zero_coordinate [where ?ac1.0 = "(blank_aircraft ''4ca1d3'')\<lparr>lat := Some 0, lon := Some 9\<rparr>"
      and ?ac2.0 = "(blank_aircraft ''3c6444'')\<lparr>lat := Some 1, lon := Some 9\<rparr>"
      and ac = "(blank_aircraft ''4ca1d3'')\<lparr>lat := Some 0, lon := Some 9\<rparr>"
      and la = 0 and lo = 9 and args = default_prox_args and th = track_empty]
    C10_zero_coordinate [where ?ac1.0 = "(blank_aircraft ''3c6444'')\<lparr>lat := Some 1, lon := Some 9\<rparr>"
      and ?ac2.0 = "(blank_aircraft ''4ca1d3'')\<lparr>lat := Some 45, lon := Some 0\<rparr>"
      and ac = "(blank_aircraft ''4ca1d3'')\<lparr>lat := Some 45, lon := Some 0\<rparr>"
      and la = 45 and lo = 0 and args = default_prox_args and th = track_empty]
  by (simp add: blank_aircraft_def track_empty_def deque_append_def TRACK_MAXLEN_def)

subsection \<open>Anomaly classifier\<close>

lemma strip_7700: "py_strip ''7700'' = ''7700''"
  by (simp add: py_strip_def is_space_def)

text \<open>
  Claim C7. With the default thresholds and no previous state, a current state with
  squawk "7700", altitude 15000 ft and ground speed 300 kt (whatever its other fields
  and whatever the elapsed time passed) gives exactly the list with the one finding
  "SQUAWK: #7700": no speed, altitude, vertical-rate or delta-GS finding.
\<close>

theorem C7_squawk_scenario:
  "detect_anomalies (ac\<lparr>squawk := Some ''7700'', alt_baro := Some 15000, gs := Some 300\<rparr>)
      None dt DEF_MIN_ALT_FT DEF_MAX_ALT_FT DEF_MIN_GS_KT DEF_MAX_GS_KT DEF_MAX_VS_FPM DEF_MAX_DGS_KTS
     = [''SQUAWK: #7700'']"
  by (simp add: detect_anomalies_def squawk_finding_def gs_finding_def alt_finding_def strip_7700
      DEF_MIN_ALT_FT_def DEF_MAX_ALT_FT_def DEF_MIN_GS_KT_def DEF_MAX_GS_KT_def)

text \<open>
  Claim C1, as stated, fails: a state whose ground flag is explicitly false, at 50 ft
  and 20 kt, is derived as on the ground by the altitude/speed heuristic, and so gets
  neither the low-speed nor the low-altitude finding.
\<close>

theorem C1_explicit_false_counterexample:
  "ground ((blank_aircraft ''4ca1d3'')\<lparr>ground := Some False, alt_baro := Some 50, gs := Some 20\<rparr>)
     = Some False \<and>
   is_ground ((blank_aircraft ''4ca1d3'')\<lparr>ground := Some False, alt_baro := Some 50, gs := Some 20\<rparr>) \<and>
   detect_anomalies
      ((blank_aircraft ''4ca1d3'')\<lparr>ground := Some False, alt_baro := Some 50, gs := Some 20\<rparr>)
      None None DEF_MIN_ALT_FT DEF_MAX_ALT_FT DEF_MIN_GS_KT DEF_MAX_GS_KT DEF_MAX_VS_FPM
      DEF_MAX_DGS_KTS = []"
  by (simp add: is_ground_def blank_aircraft_def detect_anomalies_def squawk_finding_def
      gs_finding_def alt_finding_def DEF_MIN_ALT_FT_def DEF_MAX_ALT_FT_def DEF_MIN_GS_KT_def
      DEF_MAX_GS_KT_def)

text \<open>
  Claim C1, amended. An explicit ground flag that is true makes the derived
  ground-state true. A flag that is false is treated as an absent one: whenever the
  flag is not true the heuristics decide, and the state is on the ground iff its
  altitude is present and either at most 100 ft with the ground speed absent or below
  60 kt, or at most 0 ft. A state with ground explicitly false is airborne only when
  neither heuristic applies.
\<close>

theorem C1_ground_precedence:
  "(ground ac = Some True \<longrightarrow> is_ground ac) \<and>
   (ground ac \<noteq> Some True \<longrightarrow>
      (is_ground ac \<longleftrightarrow>
         (\<exists>a. alt_baro ac = Some a \<and>
              ((a \<le> 100 \<and> (gs ac = None \<or> (\<exists>g. gs ac = Some g \<and> g < 60))) \<or> a \<le> 0))))"
  by (auto simp: is_ground_def split: option.splits)

theorem C1_ground_precedence_witness:
  "is_ground ((blank_aircraft ''4ca1d3'')\<lparr>ground := Some True, alt_baro := Some 30000\<rparr>) \<and>
   is_ground ((blank_aircraft ''4ca1d3'')\<lparr>ground := Some False, alt_baro := Some 80\<rparr>) \<and>
   is_ground ((blank_aircraft ''4ca1d3'')\<lparr>alt_baro := Some (- 10), gs := Some 90\<rparr>) \<and>
   \<not> is_ground ((blank_aircraft ''4ca1d3'')\<lparr>ground := Some False, alt_baro := Some 80, gs := Some 90\<rparr>)"
  using
    C1_ground_precedence [of "(blank_aircraft ''4ca1d3'')\<lparr>ground := Some True, alt_baro := Some 30000\<rparr>"]
    C1_ground_precedence [of "(blank_aircraft ''4ca1d3'')\<lparr>ground := Some False, alt_baro := Some 80\<rparr>"]
    C1_ground_precedence [of "(blank_aircraft ''4ca1d3'')\<lparr>alt_baro := Some (- 10), gs := Some 90\<rparr>"]
    C1_ground_precedence [of "(blank_aircraft ''4ca1d3'')\<lparr>ground := Some False, alt_baro := Some 80, gs := Some 90\<rparr>"]
  by (simp add: blank_aircraft_def)

subsection \<open>Pattern classifier\<close>





























lemma haversine_half_turn: "haversine_km (0, 0) (0, 180) = 6371 * pi"
  by (simp add: haversine_km_def radians_def py_atan2_def Let_def)

text \<open>
  Claim C8. For every track that has a first and a last point and every configuration,
  \<^verbatim>\<open>detect_loop_or_racetrack\<close> returns no match whenever the haversine distance it
  computes between the first and the last point exceeds \<open>loop_close_km\<close>, whatever the
  other parameters, the span, the aspect ratio and the midline crossings of the track;
  and it never returns a match unless that distance is computed and does not exceed the
  threshold, also when the computation of the distance raises.
\<close>

theorem C8_loop_needs_closure:
  "(track \<noteq> [] \<and> hav (hd track) (last track) = Inr d \<and> d > loop_close_km \<longrightarrow>
      detect_loop_or_racetrack hav track loop_close_km min_points min_span_km min_laps = Inr None) \<and>
   (track \<noteq> [] \<and> (\<forall>d'. hav (hd track) (last track) = Inr d' \<longrightarrow> d' > loop_close_km) \<longrightarrow>
      (\<forall>shape. detect_loop_or_racetrack hav track loop_close_km min_points min_span_km min_laps
                 \<noteq> Inr (Some shape)))"
  by (cases "hav (hd track) (last track)")
     (auto simp: detect_loop_or_racetrack_def and_then_def)

theorem C8_loop_needs_closure_witness:
  "[(0, 0), (0, 180)] \<noteq> ([] :: (real \<times> real) list) \<and>
   exact_dist (hd [(0, 0), (0, 180)]) (last [(0, 0), (0, 180)]) = Inr (6371 * pi) \<and>
   6371 * pi > 3 \<and>
   detect_loop_or_racetrack exact_dist [(0, 0), (0, 180)] 3 2 10 2 = Inr None \<and>
   detect_loop_or_racetrack (\<lambda>p q. Inl ValueError) [(0, 0), (0, 180)] 3 2 10 2
     \<noteq> Inr (Some ''LOOP/CERCHIO'') \<and>
   detect_loop_or_racetrack (\<lambda>p q. Inl ValueError) [(0, 0), (0, 180)] 3 2 10 2
     \<noteq> Inr (Some ''RACETRACK'')"
proof -
  have g: "(3::real) < 6371 * pi"
    using pi_ge_two by linarith
  have d: "exact_dist (hd [(0, 0), (0, 180)]) (last [(0, 0), (0, 180)]) = Inr (6371 * pi)"
    by (simp add: exact_dist_def haversine_half_turn)
  show ?thesis
    using g d
      C8_loop_needs_closure [of "[(0, 0), (0, 180)]" exact_dist "6371 * pi" 3 2 10 2]
      C8_loop_needs_closure [of "[(0, 0), (0, 180)]" "\<lambda>p q. Inl ValueError" 0 3 2 10 2]
    by simp
qed

lemma arctan_sixth_upper: "arctan (1 / 6) < pi / 12"
proof -
  have d: "2 * arctan (1 / 6) = arctan (12 / 35 :: real)"
    using arctan_double [of "1 / 6"] by (simp add: power2_eq_square)
  have "arctan (1 / 6) + arctan (12 / 35) = arctan (107 / 198 :: real)"
    using arctan_add [of "1 / 6" "12 / 35"] by simp
  moreover have "arctan (107 / 198 :: real) < arctan 1"
    by (simp add: arctan_less_iff)
  ultimately have "3 * arctan (1 / 6) < pi / 4"
    using d by (simp add: arctan_one)
  then show ?thesis by simp
qed

lemma arctan_sixth_lower: "pi / 32 < arctan (1 / 6)"
proof -
  have d1: "2 * arctan (1 / 6) = arctan (12 / 35 :: real)"
    using arctan_double [of "1 / 6"] by (simp add: power2_eq_square)
  have d2: "2 * arctan (12 / 35) = arctan (840 / 1081 :: real)"
    using arctan_double [of "12 / 35"] by (simp add: power2_eq_square)
  have d3: "2 * arctan (840 / 1081) = arctan (1816080 / 462961 :: real)"
    using arctan_double [of "840 / 1081"] by (simp add: power2_eq_square)
  have "arctan 1 < arctan (1816080 / 462961 :: real)"
    by (simp add: arctan_less_iff)
  then have "pi / 4 < 8 * arctan (1 / 6)"
    using d1 d2 d3 by (simp add: arctan_one)
  then show ?thesis by simp
qed

lemma round_half_even_near:
  "of_int n - 1 / 2 < x \<Longrightarrow> x < of_int n + 1 / 2 \<Longrightarrow> round_half_even x = n"
proof -
  assume a: "of_int n - 1 / 2 < x" "x < of_int n + 1 / 2"
  show ?thesis
  proof (cases "of_int n \<le> x")
    case True
    with a have "\<lfloor>x\<rfloor> = n" by (simp add: floor_eq_iff)
    with a show ?thesis by (simp add: round_half_even_def Let_def)
  next
    case False
    with a have "\<lfloor>x\<rfloor> = n - 1" by (simp add: floor_eq_iff)
    with a False show ?thesis by (simp add: round_half_even_def Let_def)
  qed
qed

lemma heading_north: "heading (0, 0) (1, 0) = Some 0"
  by (simp add: heading_def py_atan2_def degrees_def py_fmod_def)

lemma heading_east: "heading (1, 0) (1, 1) = Some 90"
  by (simp add: heading_def py_atan2_def degrees_def py_fmod_def)

lemma heading_nnw: "\<exists>h. heading (1, 1) (7, 0) = Some h \<and> 345 < h \<and> h < 355"
proof -
  define t where "t = degrees (arctan (1 / 6))"
  have t: "5 < t" "t < 15"
    using arctan_sixth_lower arctan_sixth_upper pi_gt_zero
    by (simp_all add: t_def degrees_def field_simps)
  have "py_atan2 (- 1) 6 = - arctan (1 / 6)"
    by (simp add: py_atan2_def arctan_minus [symmetric])
  then have "degrees (py_atan2 (- 1) 6) = - t"
    by (simp add: t_def degrees_def)
  moreover have "\<lfloor>- t / 360\<rfloor> = - 1"
    using t by (simp add: floor_eq_iff)
  ultimately have "heading (1, 1) (7, 0) = Some (360 - t)"
    by (simp add: heading_def py_fmod_def)
  with t show ?thesis by simp
qed

lemma mesh_heads_example: "mesh_heads [(0, 0), (1, 0), (1, 1), (7, 0)] = [0, 90, 170]"
proof -
  obtain h where h: "heading (1, 1) (7, 0) = Some h" "345 < h" "h < 355"
    using heading_nnw by blast
  have "round_half_even (h / 10) = 35"
    using h by (intro round_half_even_near) simp_all
  moreover have "round_half_even 0 = 0" "round_half_even 9 = 9"
    by (simp_all add: round_half_even_def)
  ultimately show ?thesis
    using h heading_north heading_east
    by (simp add: mesh_heads_def track_headings_def List.map_filter_simps)
qed

text \<open>
  Claim C6, evaluated where the code departs from it. The track (0,0), (1,0), (1,1),
  (7,0) has a leg due north, a leg due east and a leg on a bearing of about 350.5
  degrees; its rounded bearings are 0, 90 and 170, and with a tolerance of 10 the axis
  pair chosen is (0, 90). The bearing 170 lies 10 degrees from the axis 0 in folded
  distance, within the tolerance, and 80 degrees from the axis 90, so the claim assigns
  it to family A; \<^verbatim>\<open>family\<close> measures \<open>(h - a) mod 180\<close> on one side only,
  finds 170 and 80, and assigns no family. The scan therefore counts two crossings, not
  the three of the sequence A, B, A, and \<^verbatim>\<open>detect_mesh\<close> with \<open>min_crossings = 3\<close>
  returns False.
\<close>

theorem C6_family_one_sided:
  "mesh_heads [(0, 0), (1, 0), (1, 1), (7, 0)] = [0, 90, 170] \<and>
   hd (mesh_pairs [0, 90, 170] 10) = (0, 90) \<and>
   folded_distance 170 0 = 10 \<and> folded_distance 170 90 = 80 \<and>
   family 170 0 90 10 = None \<and>
   mesh_scan 0 90 10 [0, 90, 170] (0, 0, 0, None) = (1, 1, 2, Some ''B'') \<and>
   detect_mesh [(0, 0), (1, 0), (1, 1), (7, 0)] 4 10 3 (1 / 4) = False"
proof -
  have p: "mesh_pairs [0, 90, 170] 10 = [(0, 90), (90, 0), (90, 170), (170, 90)]"
    by (simp add: mesh_pairs_def Let_def)
  have s: "mesh_scan 0 90 10 [0, 90, 170] (0, 0, 0, None) = (1, 1, 2, Some ''B'')"
    by (simp add: family_def Let_def)
  show ?thesis
    using p s
    by (simp add: mesh_heads_example detect_mesh_def family_def folded_distance_def Let_def)
qed

subsection \<open>Snapshot normalizer\<close>

lemma and_then_Inr: "and_then r f = Inr y \<longleftrightarrow> (\<exists>x. r = Inr x \<and> f x = Inr y)"
  by (cases r) (simp_all add: and_then_def)

lemma safe_float_Inr:
  "safe_float B v = Inr x \<longleftrightarrow> \<not> float_overflows v \<and> x = (case py_float B v of Inl e \<Rightarrow> None | Inr f \<Rightarrow> Some f)"
  by (cases v) (auto simp: safe_float_def float_overflows_def split: option.splits)

lemma safe_int_Inr:
  "safe_int B v = Inr x \<longleftrightarrow> \<not> int_overflows v \<and> x = coerced_int (py_int B v)"
proof (cases v)
  case (PFloat f)
  then show ?thesis
    by (cases f) (auto simp: safe_int_def int_overflows_def coerced_int_def)
qed (auto simp: safe_int_def int_overflows_def coerced_int_def split: option.splits)

lemma lower_method_Inr:
  "(\<exists>s. lower_method (py_or v (PStr [])) = Inr s) \<longleftrightarrow> str_or_falsy v"
  by (cases v) (auto simp: lower_method_def py_or_def str_or_falsy_def)

lemma strip_method_Inr:
  "(\<exists>s. strip_method (py_or v (PStr [])) = Inr s) \<longleftrightarrow> str_or_falsy v"
  by (cases v) (auto simp: strip_method_def py_or_def str_or_falsy_def)

lemma strip_method_or_Inr:
  "(\<exists>s. strip_method (py_or u (py_or v (PStr []))) = Inr s) \<longleftrightarrow>
     str_or_falsy (py_or u v)"
  by (cases u; cases v) (auto simp: strip_method_def py_or_def str_or_falsy_def)

lemma normalize_kept_iff:
  "(\<exists>r. normalize B (PDict ac) = Inr r) \<longleftrightarrow>
     str_or_falsy (dict_get ac ''hex'') \<and>
     str_or_falsy (dict_get ac ''flight'') \<and>
     str_or_falsy (py_or (dict_get ac ''r'') (dict_get ac ''reg'')) \<and>
     \<not> float_overflows (dict_get ac ''lat'') \<and>
     \<not> float_overflows (dict_get ac ''lon'') \<and>
     \<not> int_overflows (dict_get ac ''alt_baro'') \<and>
     \<not> float_overflows (dict_get ac ''gs'') \<and>
     \<not> float_overflows (py_or (dict_get ac ''seen_pos_timestamp'') (dict_get ac ''seen_timestamp''))"
  using strip_method_or_Inr [of "dict_get ac ''r''" "dict_get ac ''reg''"]
    lower_method_Inr [of "dict_get ac ''hex''"] strip_method_Inr [of "dict_get ac ''flight''"]
  by (simp add: normalize_def and_then_Inr safe_float_Inr safe_int_Inr) blast

lemma safe_float_finite:
  "safe_float B v = Inr x \<Longrightarrow> finite_field x = Some y \<Longrightarrow> y = coerced_float (py_float B v)"
  by (auto simp: safe_float_def finite_field_def coerced_float_def
      split: sum.splits option.splits pyfloat.splits if_splits)

lemma finite_fields_Some:
  "finite_fields a b c d = Some (x, y, z, w) \<longleftrightarrow>
     finite_field a = Some x \<and> finite_field b = Some y \<and> finite_field c = Some z
     \<and> finite_field d = Some w"
  by (auto simp: finite_fields_def split: option.splits)

lemma normalize_fields:
  assumes "normalize B (PDict ac) = Inr (Some st)"
  shows "lat st = coerced_float (py_float B (dict_get ac ''lat'')) \<and>
         lon st = coerced_float (py_float B (dict_get ac ''lon'')) \<and>
         alt_baro st = coerced_int (py_int B (dict_get ac ''alt_baro'')) \<and>
         gs st = coerced_float (py_float B (dict_get ac ''gs'')) \<and>
         ts st = coerced_float (py_float B (py_or (dict_get ac ''seen_pos_timestamp'')
                                                  (dict_get ac ''seen_timestamp'')))"
proof -
  from assms obtain v_lat v_lon v_alt v_gs v_ts f_lat f_lon f_gs f_ts where
    s: "safe_float B (dict_get ac ''lat'') = Inr v_lat"
       "safe_float B (dict_get ac ''lon'') = Inr v_lon"
       "safe_int B (dict_get ac ''alt_baro'') = Inr v_alt"
       "safe_float B (dict_get ac ''gs'') = Inr v_gs"
       "safe_float B (py_or (dict_get ac ''seen_pos_timestamp'') (dict_get ac ''seen_timestamp''))
          = Inr v_ts"
    and f: "finite_fields v_lat v_lon v_gs v_ts = Some (f_lat, f_lon, f_gs, f_ts)"
    and st: "lat st = f_lat" "lon st = f_lon" "alt_baro st = v_alt" "gs st = f_gs" "ts st = f_ts"
    unfolding normalize_def pyval.case and_then_Inr
    by auto
  from f have f': "finite_field v_lat = Some f_lat" "finite_field v_lon = Some f_lon"
    "finite_field v_gs = Some f_gs" "finite_field v_ts = Some f_ts"
    by (simp_all add: finite_fields_Some)
  from s(3) have "v_alt = coerced_int (py_int B (dict_get ac ''alt_baro''))"
    by (simp add: safe_int_Inr)
  with st safe_float_finite [OF s(1) f'(1)] safe_float_finite [OF s(2) f'(2)]
    safe_float_finite [OF s(4) f'(3)] safe_float_finite [OF s(5) f'(4)]
  show ?thesis by simp
qed

lemma normalize_all_Cons:
  "normalize_all B (item # rest) =
     (case normalize B item of Inl e \<Rightarrow> normalize_all B rest | Inr a \<Rightarrow> a # normalize_all B rest)"
  by (simp add: normalize_all_def List.map_filter_simps split: sum.splits)

text \<open>
  Claim C4, as stated, fails: a record whose \<^verbatim>\<open>alt_baro\<close> is the string "ground"
  and whose \<^verbatim>\<open>gs\<close> is the string "n/a", both present and both refused by the
  numeric coercion, is not dropped. The normalizer produces its state, with the two
  fields absent.
\<close>

theorem C4_uncoercible_kept_counterexample:
  "py_int example_builtins (PStr ''ground'') = Inl ValueError \<and>
   py_float example_builtins (PStr ''n/a'') = Inl ValueError \<and>
   normalize_all example_builtins
     [PDict [(''hex'', PStr ''4CA1D3''), (''lat'', PFloat (FFin 45)), (''lon'', PFloat (FFin 9)),
             (''alt_baro'', PStr ''ground''), (''gs'', PStr ''n/a'')]]
     = [Some ((blank_aircraft ''4ca1d3'')\<lparr>lat := Some 45, lon := Some 9\<rparr>)]"
  by code_simp

text \<open>
  Claim C4, amended. For every raw record that is a JSON object, a numeric field (lat,
  lon, alt\_baro, gs, timestamp) that is present but fails numeric coercion with
  \<^verbatim>\<open>TypeError\<close> or \<^verbatim>\<open>ValueError\<close> is absent in the state produced: each
  numeric field of the state is the coerced value when the coercion succeeds and absent
  otherwise. The record itself is kept exactly when hex, flight and r/reg are strings or
  false values, no float coercion meets an integer too large for a float, and alt\_baro
  is not a float infinity, whose integer coercion raises \<^verbatim>\<open>OverflowError\<close>; every
  other record is dropped silently, and the loop goes on with the remaining records in
  order.
\<close>

theorem C4_uncoercible_field_absent:
  "(normalize B (PDict ac) = Inr (Some st) \<longrightarrow>
      lat st = coerced_float (py_float B (dict_get ac ''lat'')) \<and>
      lon st = coerced_float (py_float B (dict_get ac ''lon'')) \<and>
      alt_baro st = coerced_int (py_int B (dict_get ac ''alt_baro'')) \<and>
      gs st = coerced_float (py_float B (dict_get ac ''gs'')) \<and>
      ts st = coerced_float (py_float B (py_or (dict_get ac ''seen_pos_timestamp'')
                                               (dict_get ac ''seen_timestamp'')))) \<and>
   ((\<exists>r. normalize B (PDict ac) = Inr r) \<longleftrightarrow>
      str_or_falsy (dict_get ac ''hex'') \<and>
      str_or_falsy (dict_get ac ''flight'') \<and>
      str_or_falsy (py_or (dict_get ac ''r'') (dict_get ac ''reg'')) \<and>
      \<not> float_overflows (dict_get ac ''lat'') \<and>
      \<not> float_overflows (dict_get ac ''lon'') \<and>
      \<not> int_overflows (dict_get ac ''alt_baro'') \<and>
      \<not> float_overflows (dict_get ac ''gs'') \<and>
      \<not> float_overflows (py_or (dict_get ac ''seen_pos_timestamp'')
                                (dict_get ac ''seen_timestamp''))) \<and>
   normalize_all B (item # rest) =
     (case normalize B item of Inl e \<Rightarrow> normalize_all B rest | Inr a \<Rightarrow> a # normalize_all B rest)"
  using normalize_kept_iff [of B ac] normalize_fields [of B ac st] normalize_all_Cons [of B item rest]
  by blast

theorem C4_uncoercible_field_absent_witness:
  "normalize example_builtins
     (PDict [(''hex'', PStr ''3C6444''), (''lat'', PStr ''abc''), (''lon'', PFloat (FFin 9)),
             (''alt_baro'', PInt 1200), (''gs'', PList [])])
     = Inr (Some ((blank_aircraft ''3c6444'')\<lparr>lon := Some 9, alt_baro := Some 1200\<rparr>)) \<and>
   py_float example_builtins (PStr ''abc'') = Inl ValueError \<and>
   py_float example_builtins (PList []) = Inl TypeError \<and>
   lat ((blank_aircraft ''3c6444'')\<lparr>lon := Some 9, alt_baro := Some 1200\<rparr>) = None \<and>
   gs ((blank_aircraft ''3c6444'')\<lparr>lon := Some 9, alt_baro := Some 1200\<rparr>) = None \<and>
   int_overflows (dict_get [(''hex'', PStr ''3C6444''), (''alt_baro'', PFloat (FInf False))] ''alt_baro'') \<and>
   normalize example_builtins
     (PDict [(''hex'', PStr ''3C6444''), (''alt_baro'', PFloat (FInf False))]) = Inl OverflowError \<and>
   normalize_all example_builtins
     [PDict [(''hex'', PStr ''3C6444''), (''alt_baro'', PFloat (FInf False))],
      PDict [(''hex'', PStr ''3C6444''), (''lat'', PStr ''abc''), (''lon'', PFloat (FFin 9)),
             (''alt_baro'', PInt 1200), (''gs'', PList [])]]
     = [Some ((blank_aircraft ''3c6444'')\<lparr>lon := Some 9, alt_baro := Some 1200\<rparr>)]"
proof -
  have n: "normalize example_builtins
     (PDict [(''hex'', PStr ''3C6444''), (''lat'', PStr ''abc''), (''lon'', PFloat (FFin 9)),
             (''alt_baro'', PInt 1200), (''gs'', PList [])])
     = Inr (Some ((blank_aircraft ''3c6444'')\<lparr>lon := Some 9, alt_baro := Some 1200\<rparr>))"
    by code_simp
  have d: "normalize example_builtins
     (PDict [(''hex'', PStr ''3C6444''), (''alt_baro'', PFloat (FInf False))]) = Inl OverflowError"
    by code_simp
  have e: "py_float example_builtins (PStr ''abc'') = Inl ValueError"
    by code_simp
  have f: "py_float example_builtins (PList []) = Inl TypeError"
    by simp
  have i: "int_overflows (dict_get [(''hex'', PStr ''3C6444''), (''alt_baro'', PFloat (FInf False))]
             ''alt_baro'')"
    by (simp add: int_overflows_def dict_get_def)
  have r: "normalize_all example_builtins [] = []"
    by (simp add: normalize_all_def List.map_filter_simps)
  show ?thesis
    using n d e f i r
      C4_uncoercible_field_absent [of example_builtins
        "[(''hex'', PStr ''3C6444''), (''lat'', PStr ''abc''), (''lon'', PFloat (FFin 9)),
          (''alt_baro'', PInt 1200), (''gs'', PList [])]"
        "(blank_aircraft ''3c6444'')\<lparr>lon := Some 9, alt_baro := Some 1200\<rparr>"
        "PDict [(''hex'', PStr ''3C6444''), (''alt_baro'', PFloat (FInf False))]"
        "[PDict [(''hex'', PStr ''3C6444''), (''lat'', PStr ''abc''), (''lon'', PFloat (FFin 9)),
                 (''alt_baro'', PInt 1200), (''gs'', PList [])]]"]
      C4_uncoercible_field_absent [of example_builtins
        "[(''hex'', PStr ''3C6444''), (''alt_baro'', PFloat (FInf False))]"
        "(blank_aircraft ''3c6444'')\<lparr>lon := Some 9, alt_baro := Some 1200\<rparr>"
        "PDict [(''hex'', PStr ''3C6444''), (''lat'', PStr ''abc''), (''lon'', PFloat (FFin 9)),
                (''alt_baro'', PInt 1200), (''gs'', PList [])]"
        "[]"]
    by (simp add: blank_aircraft_def)
qed

end
